theory Spec2Isabelle
  imports Main "HOL-Library.Word"
begin

unbundle bit_operations_syntax

section \<open>USB audio demo (STM32, I2S DAC): a shallow embedding\<close>

text \<open>
  The development follows the demo's C file and \<^verbatim>\<open>audio.h\<close>. The static variables
  of the C file and the struct \<^verbatim>\<open>audio_state_t\<close> are the fields of one record; every
  C function is a function on that record. Fixed-width C integers are words, arrays are
  lists whose length is the declared array size (predicate \<open>audio_wf\<close>), and an array
  access at a computed index returns a fault when the index is outside the array.
  Calls into the HAL and the kernel that only start hardware activity are appended to a
  call trace, in program order. The timer, NVIC and RCC registers are outside the model.
\<close>

subsection \<open>Constants of audio.h\<close>

definition UAC_REQ_SET_CUR :: "8 word" where "UAC_REQ_SET_CUR = 0x01"
definition UAC_REQ_SET_MIN :: "8 word" where "UAC_REQ_SET_MIN = 0x02"
definition UAC_REQ_SET_MAX :: "8 word" where "UAC_REQ_SET_MAX = 0x03"
definition UAC_REQ_SET_RES :: "8 word" where "UAC_REQ_SET_RES = 0x04"
definition UAC_REQ_GET_CUR :: "8 word" where "UAC_REQ_GET_CUR = 0x81"
definition UAC_REQ_GET_MIN :: "8 word" where "UAC_REQ_GET_MIN = 0x82"
definition UAC_REQ_GET_MAX :: "8 word" where "UAC_REQ_GET_MAX = 0x83"
definition UAC_REQ_GET_RES :: "8 word" where "UAC_REQ_GET_RES = 0x84"

definition UAC_FU_MUTE_CONTROL :: "8 word" where "UAC_FU_MUTE_CONTROL = 0x01"
definition UAC_FU_VOLUME_CONTROL :: "8 word" where "UAC_FU_VOLUME_CONTROL = 0x02"

text \<open>
  The event masks: \<^verbatim>\<open>EVENT_MASK(n)\<close> is the kernel's macro for bit \<open>n\<close> of an
  event mask; its header is not among the sources, so the bit number is kept symbolic.
\<close>

datatype event_mask = EVENT_MASK nat

definition AUDIO_EVENT_PLAYBACK :: event_mask where "AUDIO_EVENT_PLAYBACK = EVENT_MASK 1"
definition AUDIO_EVENT_MUTE :: event_mask where "AUDIO_EVENT_MUTE = EVENT_MASK 2"
definition AUDIO_EVENT_VOLUME :: event_mask where "AUDIO_EVENT_VOLUME = EVENT_MASK 3"
definition AUDIO_EVENT_USB_STATE :: event_mask where "AUDIO_EVENT_USB_STATE = EVENT_MASK 4"

definition AUDIO_SAMPLING_FREQUENCY :: nat where "AUDIO_SAMPLING_FREQUENCY = 48000"
definition AUDIO_RESOLUTION :: nat where "AUDIO_RESOLUTION = 16"
definition AUDIO_CHANNELS :: nat where "AUDIO_CHANNELS = 2"
definition AUDIO_SAMPLES_PER_FRAME :: nat where
  "AUDIO_SAMPLES_PER_FRAME = AUDIO_SAMPLING_FREQUENCY div 1000"
definition AUDIO_PACKET_SIZE :: nat where
  "AUDIO_PACKET_SIZE = AUDIO_SAMPLES_PER_FRAME * AUDIO_CHANNELS * AUDIO_RESOLUTION div 8"
definition AUDIO_MAX_PACKET_SIZE :: nat where
  "AUDIO_MAX_PACKET_SIZE = AUDIO_PACKET_SIZE + 4"
definition AUDIO_BUFFER_SIZE :: nat where
  "AUDIO_BUFFER_SIZE = AUDIO_SAMPLES_PER_FRAME * 2 * 2"
definition AUDIO_QUEUE_SIZE :: nat where
  "AUDIO_QUEUE_SIZE = AUDIO_MAX_PACKET_SIZE * 4"

definition AUDIO_CONTROL_INTERFACE :: "8 word" where "AUDIO_CONTROL_INTERFACE = 0"
definition AUDIO_FUNCTION_UNIT_ID :: "8 word" where "AUDIO_FUNCTION_UNIT_ID = 2"

definition UINT32_MAX :: "32 word" where "UINT32_MAX = 0xFFFFFFFF"

subsection \<open>The state\<close>

text \<open>A fault is an access outside the bounds of a C array (undefined behaviour in C).\<close>

datatype fault = OutOfBounds

text \<open>
  The buffers the file hands to the USB driver by address, the two completion callbacks
  it registers for a control transfer, the timeout values of the kernel, and the calls
  that are recorded in the trace with their arguments.
\<close>

datatype buffer_ref = NULL_PTR | SOF_FEEDBACK_DATA | CONTROL_DATA

datatype ep0_callback = NOTIFY_VOLUME | NOTIFY_MUTE

datatype systime = TIME_IMMEDIATE | TIME_INFINITE

datatype hal_call =
    UsbPrepareTransmit "8 word" buffer_ref nat
  | UsbStartTransmitI "8 word"
  | UsbPrepareQueuedReceive "8 word" nat
  | UsbStartReceiveI "8 word"
  | ChEvtBroadcastFlagsI event_mask
  | ChThdResumeI
  | ChIQReadTimeout nat systime

record audio_sys =
  playback :: bool
  sof_feedback_valid :: bool
  mute :: "bool list"
  volume :: "16 word list"
  audio_queue :: "8 word list"
  dac_buffer :: "8 word list"
  bufferp :: "nat option"
  buffern :: nat
  sof_last_counter :: "32 word"
  sof_delta :: "32 word"
  sof_first :: bool
  sof_delta_count :: int
  sof_feedback_data :: "8 word list"
  control_data :: "8 word list"
  control_channel :: "8 word"
  ep0next :: buffer_ref
  ep0n :: nat
  ep0endcb :: "ep0_callback option"
  hal_calls :: "hal_call list"

text \<open>
  \<open>playback\<close>, \<open>sof_feedback_valid\<close>, \<open>mute\<close>, \<open>volume\<close> and \<open>audio_queue\<close> (the
  bytes queued, oldest first) are the fields of \<^verbatim>\<open>audio_state_t\<close>. \<open>dac_buffer\<close> is
  the array \<^verbatim>\<open>uint16_t dac_buffer[AUDIO_BUFFER_SIZE]\<close> as bytes, since the pump writes
  it through a byte pointer. \<open>bufferp\<close> is the 16-bit element offset into
  \<open>dac_buffer\<close> the pointer stands at (\<open>None\<close>: the null pointer of a zeroed static).
  \<open>sof_delta_count\<close> is a C \<^verbatim>\<open>int\<close>; it stays within 0..31 (lemma
  \<open>sof_count_range\<close>), so it is an unbounded integer here.
  \<open>ep0next\<close>, \<open>ep0n\<close> and \<open>ep0endcb\<close> are the three fields of the USB driver that the
  macro \<^verbatim>\<open>usbSetupTransfer\<close> assigns.
\<close>

definition audio_wf :: "audio_sys \<Rightarrow> bool" where
  "audio_wf s =
     (length (mute s) = 2 \<and> length (volume s) = 2 \<and> length (control_data s) = 8 \<and>
      length (sof_feedback_data s) = 3 \<and> length (dac_buffer s) = 2 * AUDIO_BUFFER_SIZE)"

text \<open>The zero-initialised statics, after \<^verbatim>\<open>audioObjectInit\<close>.\<close>

definition audioObjectInit :: audio_sys where
  "audioObjectInit =
     \<lparr> playback = False, sof_feedback_valid = False, mute = [False, False],
       volume = [0, 0], audio_queue = [], dac_buffer = replicate (2 * AUDIO_BUFFER_SIZE) 0,
       bufferp = None, buffern = 0, sof_last_counter = 0, sof_delta = 0,
       sof_first = True, sof_delta_count = 0, sof_feedback_data = [0, 0, 0],
       control_data = [0, 0, 0, 0, 0, 0, 0, 0], control_channel = 0,
       ep0next = NULL_PTR, ep0n = 0, ep0endcb = None, hal_calls = [] \<rparr>"

definition hal :: "hal_call \<Rightarrow> audio_sys \<Rightarrow> audio_sys" where
  "hal c s = s\<lparr>hal_calls := hal_calls s @ [c]\<rparr>"

definition usbSetupTransfer ::
  "buffer_ref \<Rightarrow> nat \<Rightarrow> ep0_callback option \<Rightarrow> audio_sys \<Rightarrow> audio_sys" where
  "usbSetupTransfer buf n endcb s = s\<lparr>ep0next := buf, ep0n := n, ep0endcb := endcb\<rparr>"

subsection \<open>Frame-rate feedback: the TIM2 interrupt handler\<close>

text \<open>
  Lines 87 to 90 add one of two expressions to \<open>sof_delta\<close>; \<open>sof_counter_delta\<close> is
  that added value, as a function of the previous and the current counter.
\<close>

definition sof_counter_delta :: "32 word \<Rightarrow> 32 word \<Rightarrow> 32 word" where
  "sof_counter_delta last_counter v =
     (if last_counter < v then v - last_counter else UINT32_MAX - last_counter + v)"

text \<open>The three bytes written at lines 95 to 98 from the accumulated delta.\<close>

definition sof_feedback_bytes :: "32 word \<Rightarrow> 8 word list" where
  "sof_feedback_bytes d =
     (let f1014 = push_bit 1 d AND 0xFFFFFF
      in [ucast (f1014 AND 0xFF), ucast (drop_bit 8 f1014 AND 0xFF),
          ucast (drop_bit 16 f1014 AND 0xFF)])"

text \<open>The body run under the lock when the trigger flag is set (lines 86 to 107).\<close>

definition tim2_trigger :: "32 word \<Rightarrow> audio_sys \<Rightarrow> audio_sys" where
  "tim2_trigger v s =
     (let s1 =
        (if \<not> sof_first s then
           (let s2 = s\<lparr>sof_delta := sof_delta s + sof_counter_delta (sof_last_counter s) v\<rparr>
            in if sof_delta_count s2 = 31
               then s2\<lparr>sof_feedback_data := sof_feedback_bytes (sof_delta s2),
                       sof_delta := 0, sof_delta_count := 0, sof_feedback_valid := True\<rparr>
               else s2\<lparr>sof_delta_count := sof_delta_count s2 + 1\<rparr>)
         else s)
      in s1\<lparr>sof_first := False, sof_last_counter := v\<rparr>)"

text \<open>
  The handler: \<open>v\<close> is the counter register read at entry, \<open>sr\<close> the status register.
  The bit mask \<^verbatim>\<open>TIM_SR_TIF\<close> comes from the device header, which is not among the
  sources; it is a parameter.
\<close>

definition STM32_TIM2_HANDLER :: "32 word \<Rightarrow> 32 word \<Rightarrow> 32 word \<Rightarrow> audio_sys \<Rightarrow> audio_sys" where
  "STM32_TIM2_HANDLER TIM_SR_TIF v sr s =
     (if sr AND TIM_SR_TIF \<noteq> 0 then tim2_trigger v s else s)"

text \<open>A run of frame-boundary captures, oldest first.\<close>

fun sof_captures :: "32 word list \<Rightarrow> audio_sys \<Rightarrow> audio_sys" where
  "sof_captures [] s = s"
| "sof_captures (v # vs) s = sof_captures vs (tim2_trigger v s)"

definition start_sof_capture :: "audio_sys \<Rightarrow> audio_sys" where
  "start_sof_capture s =
     s\<lparr>sof_last_counter := 0, sof_delta := 0, sof_first := True, sof_delta_count := 0,
       sof_feedback_valid := False\<rparr>"

definition stop_sof_capture :: "audio_sys \<Rightarrow> audio_sys" where
  "stop_sof_capture s = s\<lparr>sof_feedback_valid := False\<rparr>"

subsection \<open>Endpoint callbacks\<close>

definition audio_feedback :: "8 word \<Rightarrow> audio_sys \<Rightarrow> audio_sys" where
  "audio_feedback ep s =
     (if playback s then
        (let s1 = (if sof_feedback_valid s
                   then hal (UsbPrepareTransmit ep SOF_FEEDBACK_DATA 3) s
                   else hal (UsbPrepareTransmit ep NULL_PTR 0) s)
         in hal (UsbStartTransmitI ep) s1)
      else s)"

definition audio_received :: "8 word \<Rightarrow> audio_sys \<Rightarrow> audio_sys" where
  "audio_received ep s =
     (if playback s then
        hal (UsbStartReceiveI ep) (hal (UsbPrepareQueuedReceive ep AUDIO_MAX_PACKET_SIZE) s)
      else s)"

text \<open>
  The bytes a prepared transmission of \<open>n\<close> bytes from buffer \<open>buf\<close> carries, read from
  the state the transfer finds.
\<close>

definition buffer_bytes :: "audio_sys \<Rightarrow> buffer_ref \<Rightarrow> nat \<Rightarrow> 8 word list" where
  "buffer_bytes s buf n =
     (case buf of
        NULL_PTR \<Rightarrow> []
      | SOF_FEEDBACK_DATA \<Rightarrow> take n (sof_feedback_data s)
      | CONTROL_DATA \<Rightarrow> take n (control_data s))"

subsection \<open>Array accesses at a computed index\<close>

definition array_get :: "'a list \<Rightarrow> int \<Rightarrow> fault + 'a" where
  "array_get xs i =
     (if 0 \<le> i \<and> i < int (length xs) then Inr (xs ! nat i) else Inl OutOfBounds)"

definition array_set :: "'a list \<Rightarrow> int \<Rightarrow> 'a \<Rightarrow> fault + 'a list" where
  "array_set xs i x =
     (if 0 \<le> i \<and> i < int (length xs) then Inr (xs[nat i := x]) else Inl OutOfBounds)"

text \<open>\<open>memcpy_to dst off src\<close>: the bytes \<open>src\<close> copied to byte offset \<open>off\<close> of \<open>dst\<close>.\<close>

definition memcpy_to :: "8 word list \<Rightarrow> nat \<Rightarrow> 8 word list \<Rightarrow> fault + 8 word list" where
  "memcpy_to dst off src =
     (if off + length src \<le> length dst
      then Inr (take off dst @ src @ drop (off + length src) dst)
      else Inl OutOfBounds)"

definition fbind :: "fault + 'a \<Rightarrow> ('a \<Rightarrow> fault + 'b) \<Rightarrow> fault + 'b" where
  "fbind m f = (case m of Inl e \<Rightarrow> Inl e | Inr x \<Rightarrow> f x)"

text \<open>A 16-bit value in memory: the target is little-endian.\<close>

definition int16_bytes :: "16 word \<Rightarrow> 8 word list" where
  "int16_bytes x = [ucast x, ucast (drop_bit 8 x)]"

definition int16_of_bytes :: "8 word \<Rightarrow> 8 word \<Rightarrow> 16 word" where
  "int16_of_bytes lo hi = ucast lo OR push_bit 8 (ucast hi)"

subsection \<open>Control requests of the feature unit\<close>

text \<open>The completion callbacks of a SET_CUR data stage.\<close>

definition notify_volume :: "audio_sys \<Rightarrow> fault + audio_sys" where
  "notify_volume s =
     fbind
       (if control_channel s = 0xff
        then Inr (s\<lparr>volume :=
               [int16_of_bytes (control_data s ! 2) (control_data s ! 3),
                int16_of_bytes (control_data s ! 4) (control_data s ! 5)]\<rparr>)
        else fbind
               (array_set (volume s) (uint (control_channel s) - 1)
                  (int16_of_bytes (control_data s ! 0) (control_data s ! 1)))
               (\<lambda>vol. Inr (s\<lparr>volume := vol\<rparr>)))
       (\<lambda>s1. Inr (hal (ChEvtBroadcastFlagsI AUDIO_EVENT_VOLUME) s1))"

definition notify_mute :: "audio_sys \<Rightarrow> fault + audio_sys" where
  "notify_mute s =
     fbind
       (if control_channel s = 0xff
        then Inr (s\<lparr>mute := (mute s)[0 := control_data s ! 1 \<noteq> 0,
                                       1 := control_data s ! 2 \<noteq> 0]\<rparr>)
        else fbind
               (array_set (mute s) (uint (control_channel s) - 1) (control_data s ! 0 \<noteq> 0))
               (\<lambda>m. Inr (s\<lparr>mute := m\<rparr>)))
       (\<lambda>s1. Inr (hal (ChEvtBroadcastFlagsI AUDIO_EVENT_MUTE) s1))"

text \<open>
  The loop \<^verbatim>\<open>for (int i = 0; i < length; i++) ((int16_t*)control_data)[i] = x\<close>,
  from index \<open>i\<close> on.
\<close>

function for_store_int16 :: "nat \<Rightarrow> nat \<Rightarrow> 16 word \<Rightarrow> 8 word list \<Rightarrow> fault + 8 word list" where
  "for_store_int16 i n x buf =
     (if i < n
      then (case memcpy_to buf (2 * i) (int16_bytes x) of
              Inl e \<Rightarrow> Inl e
            | Inr buf' \<Rightarrow> for_store_int16 (i + 1) n x buf')
      else Inr buf)"
  by pat_completeness auto
termination
  by (relation "measure (\<lambda>(i, n, x, buf). n - i)") auto

text \<open>
  The switch of \<^verbatim>\<open>audio_volume_control\<close> has no \<^verbatim>\<open>break\<close>: a case whose
  conditions all fail runs on into the next case. Each case body is a function that
  gives \<open>Some\<close> result when it returns and \<open>None\<close> when control leaves it at its end;
  \<open>switch_from\<close> runs the bodies from the entered label on, and the \<^verbatim>\<open>default\<close>
  label returns false.
\<close>

type_synonym case_body = "audio_sys \<Rightarrow> (fault + bool \<times> audio_sys) option"

definition case_SET_MAX_MIN_RES :: "8 word \<Rightarrow> 16 word \<Rightarrow> case_body" where
  "case_SET_MAX_MIN_RES ctrl len s =
     (if ctrl = UAC_FU_VOLUME_CONTROL
      then Some (Inr (True, usbSetupTransfer CONTROL_DATA (unat len) None s))
      else None)"

definition case_GET_MAX :: "8 word \<Rightarrow> 16 word \<Rightarrow> case_body" where
  "case_GET_MAX ctrl len s =
     (if ctrl = UAC_FU_VOLUME_CONTROL
      then Some (fbind (for_store_int16 0 (unat len) 0 (control_data s))
                   (\<lambda>cd. Inr (True, usbSetupTransfer CONTROL_DATA (unat len) None
                                      (s\<lparr>control_data := cd\<rparr>))))
      else None)"

definition case_GET_MIN :: "8 word \<Rightarrow> 16 word \<Rightarrow> case_body" where
  "case_GET_MIN ctrl len s =
     (if ctrl = UAC_FU_VOLUME_CONTROL
      then Some (fbind (for_store_int16 0 (unat len) (- 96 * 256) (control_data s))
                   (\<lambda>cd. Inr (True, usbSetupTransfer CONTROL_DATA (unat len) None
                                      (s\<lparr>control_data := cd\<rparr>))))
      else None)"

definition case_GET_RES :: "8 word \<Rightarrow> 16 word \<Rightarrow> case_body" where
  "case_GET_RES ctrl len s =
     (if ctrl = UAC_FU_VOLUME_CONTROL
      then Some (fbind (for_store_int16 0 (unat len) 128 (control_data s))
                   (\<lambda>cd. Inr (True, usbSetupTransfer CONTROL_DATA (unat len) None
                                      (s\<lparr>control_data := cd\<rparr>))))
      else None)"

definition case_GET_CUR :: "8 word \<Rightarrow> 8 word \<Rightarrow> 16 word \<Rightarrow> case_body" where
  "case_GET_CUR ctrl channel len s =
     (if ctrl = UAC_FU_MUTE_CONTROL then
        Some (fbind
                (if channel = 0xff
                 then memcpy_to (control_data s) 0
                        [0, of_bool (mute s ! 0), of_bool (mute s ! 1)]
                 else fbind (array_get (mute s) (uint channel - 1))
                        (\<lambda>m. memcpy_to (control_data s) 0 [of_bool m]))
                (\<lambda>cd. Inr (True, usbSetupTransfer CONTROL_DATA (unat len) None
                                   (s\<lparr>control_data := cd\<rparr>))))
      else if ctrl = UAC_FU_VOLUME_CONTROL then
        Some (fbind
                (if channel = 0xff
                 then memcpy_to (control_data s) 0
                        (int16_bytes 0 @ int16_bytes (volume s ! 0) @ int16_bytes (volume s ! 1))
                 else fbind (array_get (volume s) (uint channel - 1))
                        (\<lambda>x. memcpy_to (control_data s) 0 (int16_bytes x)))
                (\<lambda>cd. Inr (True, usbSetupTransfer CONTROL_DATA (unat len) None
                                   (s\<lparr>control_data := cd\<rparr>))))
      else None)"

definition case_SET_CUR :: "8 word \<Rightarrow> 8 word \<Rightarrow> 16 word \<Rightarrow> case_body" where
  "case_SET_CUR ctrl channel len s =
     (if ctrl = UAC_FU_MUTE_CONTROL then
        Some (Inr (True, usbSetupTransfer CONTROL_DATA (unat len) (Some NOTIFY_MUTE)
                           (s\<lparr>control_channel := channel\<rparr>)))
      else if ctrl = UAC_FU_VOLUME_CONTROL then
        Some (Inr (True, usbSetupTransfer CONTROL_DATA (unat len) (Some NOTIFY_VOLUME)
                           (s\<lparr>control_channel := channel\<rparr>)))
      else None)"

fun switch_from :: "case_body list \<Rightarrow> audio_sys \<Rightarrow> fault + bool \<times> audio_sys" where
  "switch_from [] s = Inr (False, s)"
| "switch_from (body # bodies) s =
     (case body s of Some r \<Rightarrow> r | None \<Rightarrow> switch_from bodies s)"

definition audio_volume_control ::
  "8 word \<Rightarrow> 8 word \<Rightarrow> 8 word \<Rightarrow> 16 word \<Rightarrow> audio_sys \<Rightarrow> fault + bool \<times> audio_sys" where
  "audio_volume_control req ctrl channel len s =
     (let bodies =
        [case_SET_MAX_MIN_RES ctrl len, case_GET_MAX ctrl len, case_GET_MIN ctrl len,
         case_GET_RES ctrl len, case_GET_CUR ctrl channel len, case_SET_CUR ctrl channel len]
      in if req = UAC_REQ_SET_MAX \<or> req = UAC_REQ_SET_MIN \<or> req = UAC_REQ_SET_RES
         then switch_from bodies s
         else if req = UAC_REQ_GET_MAX then switch_from (drop 1 bodies) s
         else if req = UAC_REQ_GET_MIN then switch_from (drop 2 bodies) s
         else if req = UAC_REQ_GET_RES then switch_from (drop 3 bodies) s
         else if req = UAC_REQ_GET_CUR then switch_from (drop 4 bodies) s
         else if req = UAC_REQ_SET_CUR then switch_from (drop 5 bodies) s
         else Inr (False, s))"

definition audio_control ::
  "8 word \<Rightarrow> 8 word \<Rightarrow> 8 word \<Rightarrow> 16 word \<Rightarrow> 16 word \<Rightarrow> audio_sys \<Rightarrow> fault + bool \<times> audio_sys" where
  "audio_control iface entity req wValue len s =
     (if iface = AUDIO_CONTROL_INTERFACE \<and> entity = AUDIO_FUNCTION_UNIT_ID
      then audio_volume_control req (ucast (drop_bit 8 wValue AND 0xFF))
             (ucast (wValue AND 0xFF)) len s
      else Inr (False, s))"

text \<open>
  Modelled from the spec: the data stage of a host-to-device control transfer, which
  the USB driver runs and which is not among the sources. Section 4.5: the bytes are
  staged into the control buffer, and on completion of the data stage the completion
  callback runs. The driver stores at most \<open>ep0n\<close> bytes at the buffer \<open>ep0next\<close>,
  then calls \<open>ep0endcb\<close>.
\<close>

definition ep0_data_stage :: "8 word list \<Rightarrow> audio_sys \<Rightarrow> fault + audio_sys" where
  "ep0_data_stage payload s =
     (case ep0next s of
        CONTROL_DATA \<Rightarrow>
          fbind (memcpy_to (control_data s) 0 (take (ep0n s) payload))
            (\<lambda>cd. case ep0endcb s of
                     None \<Rightarrow> Inr (s\<lparr>control_data := cd\<rparr>)
                   | Some NOTIFY_VOLUME \<Rightarrow> notify_volume (s\<lparr>control_data := cd\<rparr>)
                   | Some NOTIFY_MUTE \<Rightarrow> notify_mute (s\<lparr>control_data := cd\<rparr>))
      | _ \<Rightarrow> Inr s)"

subsection \<open>The pump: DMA half-transfer callback and pump thread\<close>

text \<open>
  \<open>off\<close> and \<open>n\<close> are the offset and the count, in 16-bit samples, of the half the DMA
  has finished with; \<^verbatim>\<open>size_t\<close> is 32 bits wide on the target.
\<close>

definition i2s_callback :: "nat \<Rightarrow> nat \<Rightarrow> audio_sys \<Rightarrow> audio_sys" where
  "i2s_callback off n s =
     hal ChThdResumeI (s\<lparr>bufferp := Some off, buffern := (n * 2) mod 2 ^ 32\<rparr>)"

text \<open>
  Modelled from the spec: the two calls on the kernel's input queue, whose code is not
  among the sources. Section 4.3: \<^verbatim>\<open>chIQGetFullI\<close> gives the number of queued bytes;
  the read with an immediate timeout never waits and takes the oldest bytes, at most
  \<open>n\<close> of them, in queue order. It gives the bytes read and the bytes left.
\<close>

definition chIQGetFullI :: "8 word list \<Rightarrow> nat" where
  "chIQGetFullI q = length q"

definition chIQReadTimeout_immediate :: "8 word list \<Rightarrow> nat \<Rightarrow> 8 word list \<times> 8 word list" where
  "chIQReadTimeout_immediate q n = (take n q, drop n q)"

text \<open>One turn of the loop of \<^verbatim>\<open>Thread1\<close>, from the point where the thread is resumed.\<close>

definition Thread1_resumed :: "audio_sys \<Rightarrow> fault + audio_sys" where
  "Thread1_resumed s =
     (let qs = chIQGetFullI (audio_queue s)
      in if buffern s \<le> qs then
           (let (bytes, rest) = chIQReadTimeout_immediate (audio_queue s) (buffern s);
                s1 = hal (ChIQReadTimeout (buffern s) TIME_IMMEDIATE) (s\<lparr>audio_queue := rest\<rparr>)
            in case bufferp s of
                 None \<Rightarrow> (if bytes = [] then Inr s1 else Inl OutOfBounds)
               | Some off \<Rightarrow>
                   fbind (memcpy_to (dac_buffer s) (2 * off) bytes)
                     (\<lambda>buf. Inr (s1\<lparr>dac_buffer := buf\<rparr>)))
         else Inr s)"

section \<open>Properties\<close>

lemmas uac_defs =
  UAC_REQ_SET_CUR_def UAC_REQ_SET_MIN_def UAC_REQ_SET_MAX_def UAC_REQ_SET_RES_def
  UAC_REQ_GET_CUR_def UAC_REQ_GET_MIN_def UAC_REQ_GET_MAX_def UAC_REQ_GET_RES_def
  UAC_FU_MUTE_CONTROL_def UAC_FU_VOLUME_CONTROL_def

lemma audioObjectInit_wf: "audio_wf audioObjectInit"
  by (simp add: audio_wf_def audioObjectInit_def)

subsection \<open>The feedback endpoint callback\<close>

text \<open>
  Claim C4. Every call of the feedback-endpoint callback: with \<open>playback\<close> false it
  does nothing (no transmission is armed); with \<open>playback\<close> and \<open>sof_feedback_valid\<close>
  true it prepares and starts a transmission of 3 bytes from \<open>sof_feedback_data\<close>, which
  are exactly the three bytes of that array; with \<open>playback\<close> true and
  \<open>sof_feedback_valid\<close> false it prepares and starts a transmission of 0 bytes from the
  null pointer. Nothing else of the state changes.
\<close>

theorem audio_feedback_arms:
  "(\<not> playback s \<longrightarrow> audio_feedback ep s = s) \<and>
   (playback s \<and> sof_feedback_valid s \<longrightarrow>
      audio_feedback ep s =
        s\<lparr>hal_calls := hal_calls s @
             [UsbPrepareTransmit ep SOF_FEEDBACK_DATA 3, UsbStartTransmitI ep]\<rparr> \<and>
      (audio_wf s \<longrightarrow> buffer_bytes s SOF_FEEDBACK_DATA 3 = sof_feedback_data s \<and>
                        length (buffer_bytes s SOF_FEEDBACK_DATA 3) = 3)) \<and>
   (playback s \<and> \<not> sof_feedback_valid s \<longrightarrow>
      audio_feedback ep s =
        s\<lparr>hal_calls := hal_calls s @
             [UsbPrepareTransmit ep NULL_PTR 0, UsbStartTransmitI ep]\<rparr> \<and>
      buffer_bytes s NULL_PTR 0 = [])"
  by (simp add: audio_feedback_def hal_def buffer_bytes_def audio_wf_def)

theorem audio_feedback_arms_witness:
  "audio_feedback 1 audioObjectInit = audioObjectInit \<and>
   hal_calls (audio_feedback 1 (audioObjectInit\<lparr>playback := True, sof_feedback_valid := True,
                                                 sof_feedback_data := [0, 0, 12]\<rparr>)) =
     [UsbPrepareTransmit 1 SOF_FEEDBACK_DATA 3, UsbStartTransmitI 1] \<and>
   buffer_bytes (audioObjectInit\<lparr>playback := True, sof_feedback_valid := True,
                                 sof_feedback_data := [0, 0, 12]\<rparr>) SOF_FEEDBACK_DATA 3 =
     [0, 0, 12] \<and>
   hal_calls (audio_feedback 1 (audioObjectInit\<lparr>playback := True\<rparr>)) =
     [UsbPrepareTransmit 1 NULL_PTR 0, UsbStartTransmitI 1]"
  using audio_feedback_arms [of audioObjectInit 1]
    audio_feedback_arms [of "audioObjectInit\<lparr>playback := True, sof_feedback_valid := True,
                                             sof_feedback_data := [0, 0, 12]\<rparr>" 1]
    audio_feedback_arms [of "audioObjectInit\<lparr>playback := True\<rparr>" 1]
  by (simp add: audioObjectInit_def audio_wf_def AUDIO_BUFFER_SIZE_def
        AUDIO_SAMPLES_PER_FRAME_def AUDIO_SAMPLING_FREQUENCY_def)

end
